theory Spec2Isabelle
  imports Complex_Main "HOL-Library.Word"
begin

section \<open>Scope guards of the Shenandoah collector (shenandoahUtils.cpp)\<close>

text \<open>
  The file defines five families of scope guards. Each constructor and destructor is
  embedded as a function on the part of the VM state it reads and writes; a fatal
  outcome (a failed \<^verbatim>\<open>assert\<close>, a dereferenced null pointer) is the left
  injection of the result.
\<close>

subsection \<open>Declarations taken from headers\<close>

text \<open>
  The enumerations \<^verbatim>\<open>ShenandoahPhaseTimings::Phase\<close> and \<^verbatim>\<open>GCCause::Cause\<close>, the
  constants \<^verbatim>\<open>_invalid_phase\<close> and \<^verbatim>\<open>INVALID_WORKER_ID\<close> are declared in headers.
  An enumerator is modelled by its integer value, and the values the file names are the
  fields of one record, a parameter of every function that uses them.
\<close>

type_synonym Phase = int
type_synonym Cause = int

record decls =
  scan_roots :: Phase
  update_roots :: Phase
  init_evac :: Phase
  final_update_refs_roots :: Phase
  degen_gc_update_roots :: Phase
  init_traversal_gc_work :: Phase
  final_traversal_gc_work :: Phase
  final_traversal_update_roots :: Phase
  full_gc_roots :: Phase
  num_phases :: Phase
  invalid_phase :: Phase
  no_gc :: Cause
  INVALID_WORKER_ID :: "32 word"

text \<open>
  The build and the command-line flags: whether \<^verbatim>\<open>ASSERT\<close> is defined (a debug
  build), the toggle \<^verbatim>\<open>ShenandoahAllocationTrace\<close> and the \<^verbatim>\<open>intx\<close> flag
  \<^verbatim>\<open>ShenandoahAllocationStallThreshold\<close>. Flags are fixed when the VM starts, so one
  value serves every call.
\<close>

record build =
  ASSERT :: bool
  ShenandoahAllocationTrace :: bool
  ShenandoahAllocationStallThreshold :: "64 word"

datatype fatal = assert_failed string | null_dereference

text \<open>
  Modelled from the spec: the \<^verbatim>\<open>assert\<close> macro (utilities/debug.hpp) is not among the
  sources. The spec calls it a debug-only contract check whose violation is fatal: in a
  debug build a false condition terminates the VM with the message, in any other build
  the check is absent.
\<close>

definition vm_assert :: "build \<Rightarrow> bool \<Rightarrow> string \<Rightarrow> fatal + unit" where
  "vm_assert B c msg = (if ASSERT B \<and> \<not> c then Inl (assert_failed msg) else Inr ())"

subsection \<open>State\<close>

text \<open>
  The collaborators reached through the heap (timer, tracer, policy, heuristics, phase
  timings) are opaque; the model records the calls made to them, in order. Timestamps
  passed between them (\<^verbatim>\<open>Ticks::now()\<close>, \<^verbatim>\<open>_timer->gc_start()\<close>, \<^verbatim>\<open>_timer->gc_end()\<close>,
  \<^verbatim>\<open>_timer->time_partitions()\<close>) are values of those collaborators and are not
  recorded.
\<close>

datatype call =
    Timer_register_gc_start
  | Tracer_report_gc_start Cause
  | Heap_trace_heap_BeforeGC
  | Policy_record_cycle_start
  | Heuristics_record_cycle_start
  | Heuristics_record_cycle_end
  | Tracer_report_gc_end
  | Timer_register_gc_end
  | Timer_register_gc_phase_start string
  | Timer_register_gc_phase_end
  | Heuristics_record_gc_start
  | Heuristics_record_gc_end
  | PhaseTimings_record_phase_start Phase
  | PhaseTimings_record_phase_end Phase

record vm_state =
  current_phase :: Phase
  gc_cause :: Cause
  calls :: "call list"

definition call_out :: "call \<Rightarrow> vm_state \<Rightarrow> vm_state" where
  "call_out c s = s\<lparr>calls := calls s @ [c]\<rparr>"

text \<open>
  Modelled from the spec: \<^verbatim>\<open>set_gc_cause\<close> and \<^verbatim>\<open>gc_cause\<close> of the heap are not among the
  sources. The heap exposes its current GC cause to be read and set.
\<close>

definition set_gc_cause :: "Cause \<Rightarrow> vm_state \<Rightarrow> vm_state" where
  "set_gc_cause c s = s\<lparr>gc_cause := c\<rparr>"

text \<open>Line 38: the static \<^verbatim>\<open>_current_phase\<close> starts as \<^verbatim>\<open>_invalid_phase\<close>.\<close>

definition initial_state :: "decls \<Rightarrow> vm_state" where
  "initial_state D = \<lparr>current_phase = invalid_phase D, gc_cause = no_gc D, calls = []\<rparr>"

text \<open>
  Modelled from the spec: the class \<^verbatim>\<open>Thread\<close> is not among the sources. A thread
  answers the two role queries and holds the worker-identity slot that
  \<^verbatim>\<open>worker_id()\<close> reads and \<^verbatim>\<open>set_worker_id\<close> writes.
\<close>

record thread =
  is_VM_thread :: bool
  is_ConcurrentGC_thread :: bool
  worker_id :: "32 word"

subsection \<open>ShenandoahGCPhase\<close>

definition is_valid_phase :: "decls \<Rightarrow> Phase \<Rightarrow> bool" where
  "is_valid_phase D phase = (phase \<ge> 0 \<and> phase < num_phases D)"

record ShenandoahGCPhase =
  phase :: Phase
  parent_phase :: Phase

definition ShenandoahGCPhase_ctor ::
  "build \<Rightarrow> thread \<Rightarrow> Phase \<Rightarrow> vm_state \<Rightarrow> fatal + (ShenandoahGCPhase \<times> vm_state)" where
  "ShenandoahGCPhase_ctor B thr p s =
     (case vm_assert B (is_VM_thread thr \<or> is_ConcurrentGC_thread thr)
             ''Must be set by these threads'' of
        Inl e \<Rightarrow> Inl e
      | Inr _ \<Rightarrow>
          let g = \<lparr>phase = p, parent_phase = current_phase s\<rparr>;
              s1 = s\<lparr>current_phase := p\<rparr>;
              s2 = call_out (PhaseTimings_record_phase_start (phase g)) s1
          in Inr (g, s2))"

definition ShenandoahGCPhase_dtor :: "ShenandoahGCPhase \<Rightarrow> vm_state \<Rightarrow> vm_state" where
  "ShenandoahGCPhase_dtor g s =
     (let s1 = call_out (PhaseTimings_record_phase_end (phase g)) s
      in s1\<lparr>current_phase := parent_phase g\<rparr>)"

definition is_root_work_phase :: "decls \<Rightarrow> vm_state \<Rightarrow> bool" where
  "is_root_work_phase D s =
     (let p = current_phase s in
      if p = scan_roots D then True
      else if p = update_roots D then True
      else if p = init_evac D then True
      else if p = final_update_refs_roots D then True
      else if p = degen_gc_update_roots D then True
      else if p = init_traversal_gc_work D then True
      else if p = final_traversal_gc_work D then True
      else if p = final_traversal_update_roots D then True
      else if p = full_gc_roots D then True
      else False)"

text \<open>
  Guards are stack objects, so their lifetimes nest: a scope constructs its guard, runs
  the scopes nested in it one after the other, and destroys the guard. A fatal outcome
  ends the run. For every guard the run notes the pair of the registry's value just
  before the construction and its value just after the destruction, in the order of
  the destructions.
\<close>

datatype scope = Scope Phase "scope list"

fun guards :: "scope \<Rightarrow> nat" where
  "guards (Scope p body) = Suc (sum_list (map guards body))"

fun run_scope ::
    "build \<Rightarrow> thread \<Rightarrow> scope \<Rightarrow> vm_state \<Rightarrow> fatal + ((Phase \<times> Phase) list \<times> vm_state)"
  and run_scopes ::
    "build \<Rightarrow> thread \<Rightarrow> scope list \<Rightarrow> vm_state \<Rightarrow> fatal + ((Phase \<times> Phase) list \<times> vm_state)"
  where
  "run_scope B thr (Scope p body) s =
     (case ShenandoahGCPhase_ctor B thr p s of
        Inl e \<Rightarrow> Inl e
      | Inr (g, s1) \<Rightarrow>
          (case run_scopes B thr body s1 of
             Inl e \<Rightarrow> Inl e
           | Inr (obs, s2) \<Rightarrow>
               let s3 = ShenandoahGCPhase_dtor g s2
               in Inr (obs @ [(current_phase s, current_phase s3)], s3)))"
| "run_scopes B thr [] s = Inr ([], s)"
| "run_scopes B thr (x # xs) s =
     (case run_scope B thr x s of
        Inl e \<Rightarrow> Inl e
      | Inr (obs1, s1) \<Rightarrow>
          (case run_scopes B thr xs s1 of
             Inl e \<Rightarrow> Inl e
           | Inr (obs2, s2) \<Rightarrow> Inr (obs1 @ obs2, s2)))"

definition restored :: "(Phase \<times> Phase) list \<Rightarrow> bool" where
  "restored obs = list_all (\<lambda>(before, after). after = before) obs"

text \<open>
  The nine enumerators the classification names, and what the declaration of the
  enumeration gives: each of them lies in the range of the enumeration, and the
  sentinel \<^verbatim>\<open>_invalid_phase\<close> does not.
\<close>

definition root_work_phases :: "decls \<Rightarrow> Phase list" where
  "root_work_phases D =
     [scan_roots D, update_roots D, init_evac D, final_update_refs_roots D,
      degen_gc_update_roots D, init_traversal_gc_work D, final_traversal_gc_work D,
      final_traversal_update_roots D, full_gc_roots D]"

definition wf_decls :: "decls \<Rightarrow> bool" where
  "wf_decls D =
     (list_all (is_valid_phase D) (root_work_phases D) \<and>
      \<not> is_valid_phase D (invalid_phase D))"

subsection \<open>ShenandoahGCSession and ShenandoahGCPauseMark\<close>

text \<open>
  Modelled from the spec: \<^verbatim>\<open>TraceMemoryManagerStats::initialize\<close> is not among the
  sources. The trace record keeps the ten arguments it is initialised with.
\<close>

record TraceMemoryManagerStats =
  fullGC :: bool
  cause :: Cause
  allMemoryPoolsAffected :: bool
  recordGCBeginTime :: bool
  recordPreGCUsage :: bool
  recordPeakUsage :: bool
  recordPostGCUsage :: bool
  recordAccumulatedGCTime :: bool
  recordGCEndTime :: bool
  countCollection :: bool

definition initialize ::
  "bool \<Rightarrow> Cause \<Rightarrow> bool \<Rightarrow> bool \<Rightarrow> bool \<Rightarrow> bool \<Rightarrow> bool \<Rightarrow> bool \<Rightarrow> bool \<Rightarrow> bool
     \<Rightarrow> TraceMemoryManagerStats" where
  "initialize full c pools begin_time pre peak post acc end_time cnt =
     \<lparr>fullGC = full, cause = c, allMemoryPoolsAffected = pools,
      recordGCBeginTime = begin_time, recordPreGCUsage = pre, recordPeakUsage = peak,
      recordPostGCUsage = post, recordAccumulatedGCTime = acc,
      recordGCEndTime = end_time, countCollection = cnt\<rparr>"

record ShenandoahGCSession =
  trace_cycle :: TraceMemoryManagerStats

definition ShenandoahGCSession_ctor ::
  "build \<Rightarrow> decls \<Rightarrow> Cause \<Rightarrow> vm_state \<Rightarrow> fatal + (ShenandoahGCSession \<times> vm_state)" where
  "ShenandoahGCSession_ctor B D c s =
     (case vm_assert B (\<not> is_valid_phase D (current_phase s)) ''No current GC phase'' of
        Inl e \<Rightarrow> Inl e
      | Inr _ \<Rightarrow>
          let s1 = set_gc_cause c s;
              s2 = call_out Timer_register_gc_start s1;
              s3 = call_out (Tracer_report_gc_start c) s2;
              s4 = call_out Heap_trace_heap_BeforeGC s3;
              s5 = call_out Policy_record_cycle_start s4;
              s6 = call_out Heuristics_record_cycle_start s5;
              g = \<lparr>trace_cycle =
                     initialize False c True True True True True True True True\<rparr>
          in Inr (g, s6))"

definition ShenandoahGCSession_dtor ::
  "build \<Rightarrow> decls \<Rightarrow> ShenandoahGCSession \<Rightarrow> vm_state \<Rightarrow> fatal + vm_state" where
  "ShenandoahGCSession_dtor B D g s =
     (let s1 = call_out Heuristics_record_cycle_end s;
          s2 = call_out Tracer_report_gc_end s1;
          s3 = call_out Timer_register_gc_end s2
      in case vm_assert B (\<not> is_valid_phase D (current_phase s3))
                ''No current GC phase'' of
           Inl e \<Rightarrow> Inl e
         | Inr _ \<Rightarrow> Inr (set_gc_cause (no_gc D) s3))"

text \<open>
  A cycle bracketed by a session guard: the guard is constructed, the bracketed work
  runs and ends either normally or by unwinding (the flag it returns), and the
  destructor runs on both exits.
\<close>

definition session_scope ::
  "build \<Rightarrow> decls \<Rightarrow> Cause \<Rightarrow> (vm_state \<Rightarrow> bool \<times> vm_state) \<Rightarrow> vm_state
     \<Rightarrow> fatal + (bool \<times> vm_state)" where
  "session_scope B D c body s =
     (case ShenandoahGCSession_ctor B D c s of
        Inl e \<Rightarrow> Inl e
      | Inr (g, s1) \<Rightarrow>
          (case body s1 of
             (unwinding, s2) \<Rightarrow>
               (case ShenandoahGCSession_dtor B D g s2 of
                  Inl e \<Rightarrow> Inl e
                | Inr s3 \<Rightarrow> Inr (unwinding, s3))))"

text \<open>
  The pause mark also holds an \<^verbatim>\<open>SvcGCMarker\<close> built from the reason it is given and
  an \<^verbatim>\<open>IsGCActiveMark\<close>; both are classes of other files and only the reason is kept.
\<close>

record ShenandoahGCPauseMark =
  svc_gc_mark :: nat
  trace_pause :: TraceMemoryManagerStats

definition ShenandoahGCPauseMark_ctor ::
  "nat \<Rightarrow> vm_state \<Rightarrow> ShenandoahGCPauseMark \<times> vm_state" where
  "ShenandoahGCPauseMark_ctor type s =
     (let s1 = call_out (Timer_register_gc_phase_start ''Shenandoah'') s;
          g = \<lparr>svc_gc_mark = type,
               trace_pause =
                 initialize True (gc_cause s1) True True False False False True True True\<rparr>;
          s2 = call_out Heuristics_record_gc_start s1
      in (g, s2))"

definition ShenandoahGCPauseMark_dtor :: "ShenandoahGCPauseMark \<Rightarrow> vm_state \<Rightarrow> vm_state" where
  "ShenandoahGCPauseMark_dtor g s =
     (let s1 = call_out Timer_register_gc_phase_end s
      in call_out Heuristics_record_gc_end s1)"

subsection \<open>ShenandoahAllocTrace\<close>

text \<open>
  The guard computes with \<^verbatim>\<open>double\<close>. The operations on doubles that the code uses are
  a parameter: the conversion of an integer, subtraction, multiplication and the
  comparison \<^verbatim>\<open>>\<close>. What is proved holds for every interpretation of them, the
  IEEE one included.
\<close>

record 'd double_ops =
  d_of_int :: "int \<Rightarrow> 'd"
  d_sub :: "'d \<Rightarrow> 'd \<Rightarrow> 'd"
  d_mul :: "'d \<Rightarrow> 'd \<Rightarrow> 'd"
  d_gt :: "'d \<Rightarrow> 'd \<Rightarrow> bool"

text \<open>
  The allocation request type is the integer value of its enumerator. The heap's
  tracker pointer may be null; a tracker is the list of the latency records it has
  received. The log is the list of stall warnings passed to \<^verbatim>\<open>log_warning\<close>, each with
  the duration and the threshold it is formatted with.
\<close>

record 'd ShenandoahAllocTrace =
  start :: 'd
  size_words :: "64 word"
  alloc_type :: int

record 'd alloc_state =
  alloc_tracker :: "(64 word \<times> int \<times> 'd) list option"
  gc_log :: "('d \<times> 64 word) list"

text \<open>The argument \<open>now\<close> is what \<^verbatim>\<open>os::elapsedTime()\<close> returns when it is called.\<close>

definition ShenandoahAllocTrace_ctor ::
  "build \<Rightarrow> 'd double_ops \<Rightarrow> 'd \<Rightarrow> 64 word \<Rightarrow> int \<Rightarrow> 'd ShenandoahAllocTrace" where
  "ShenandoahAllocTrace_ctor B ops now words_size type =
     (if ShenandoahAllocationTrace B
      then \<lparr>start = now, size_words = words_size, alloc_type = type\<rparr>
      else \<lparr>start = d_of_int ops 0, size_words = 0, alloc_type = 0\<rparr>)"

text \<open>
  Modelled from the spec: \<^verbatim>\<open>ShenandoahAllocTracker::record_alloc_latency\<close> is not among
  the sources. The tracker receives the record of size, type and duration in
  microseconds.
\<close>

definition record_alloc_latency ::
  "64 word \<Rightarrow> int \<Rightarrow> 'd \<Rightarrow> (64 word \<times> int \<times> 'd) list \<Rightarrow> (64 word \<times> int \<times> 'd) list" where
  "record_alloc_latency sz type duration_us recs = recs @ [(sz, type, duration_us)]"

definition ShenandoahAllocTrace_dtor ::
  "build \<Rightarrow> 'd double_ops \<Rightarrow> 'd \<Rightarrow> 'd ShenandoahAllocTrace \<Rightarrow> 'd alloc_state
     \<Rightarrow> fatal + 'd alloc_state" where
  "ShenandoahAllocTrace_dtor B ops now g w =
     (if ShenandoahAllocationTrace B then
        let stop = now;
            duration_sec = d_sub ops stop (start g);
            duration_us = d_mul ops duration_sec (d_of_int ops 1000000);
            tracker = alloc_tracker w
        in (case vm_assert B (tracker \<noteq> None) ''Must be'' of
              Inl e \<Rightarrow> Inl e
            | Inr _ \<Rightarrow>
                (case tracker of
                   None \<Rightarrow> Inl null_dereference
                 | Some recs \<Rightarrow>
                     let w1 = w\<lparr>alloc_tracker :=
                                  Some (record_alloc_latency (size_words g) (alloc_type g)
                                          duration_us recs)\<rparr>
                     in if d_gt ops duration_us
                             (d_of_int ops (sint (ShenandoahAllocationStallThreshold B)))
                        then Inr (w1\<lparr>gc_log := gc_log w1 @
                                    [(duration_us, ShenandoahAllocationStallThreshold B)]\<rparr>)
                        else Inr w1))
      else Inr w)"

subsection \<open>ShenandoahWorkerSession\<close>

record ShenandoahWorkerSession =
  session_worker_id :: "32 word"

definition ShenandoahWorkerSession_ctor ::
  "build \<Rightarrow> decls \<Rightarrow> 32 word \<Rightarrow> thread \<Rightarrow> fatal + (ShenandoahWorkerSession \<times> thread)" where
  "ShenandoahWorkerSession_ctor B D wid thr =
     (case vm_assert B (worker_id thr = INVALID_WORKER_ID D) ''Already set'' of
        Inl e \<Rightarrow> Inl e
      | Inr _ \<Rightarrow> Inr (\<lparr>session_worker_id = wid\<rparr>, thr\<lparr>worker_id := wid\<rparr>))"

text \<open>
  The body of the destructor stands between \<^verbatim>\<open>#ifdef ASSERT\<close> and \<^verbatim>\<open>#endif\<close>: a
  build without \<^verbatim>\<open>ASSERT\<close> compiles an empty destructor.
\<close>

definition ShenandoahWorkerSession_dtor ::
  "build \<Rightarrow> decls \<Rightarrow> ShenandoahWorkerSession \<Rightarrow> thread \<Rightarrow> fatal + thread" where
  "ShenandoahWorkerSession_dtor B D g thr =
     (if ASSERT B then
        (case vm_assert B (worker_id thr \<noteq> INVALID_WORKER_ID D) ''Must be set'' of
           Inl e \<Rightarrow> Inl e
         | Inr _ \<Rightarrow> Inr (thr\<lparr>worker_id := INVALID_WORKER_ID D\<rparr>))
      else Inr thr)"

text \<open>
  The destructors of the two derived guards have empty bodies; the destructor of the
  base class runs after them.
\<close>

definition ShenandoahConcurrentWorkerSession_dtor ::
  "build \<Rightarrow> decls \<Rightarrow> ShenandoahWorkerSession \<Rightarrow> thread \<Rightarrow> fatal + thread" where
  "ShenandoahConcurrentWorkerSession_dtor B D g thr = ShenandoahWorkerSession_dtor B D g thr"

definition ShenandoahParallelWorkerSession_dtor ::
  "build \<Rightarrow> decls \<Rightarrow> ShenandoahWorkerSession \<Rightarrow> thread \<Rightarrow> fatal + thread" where
  "ShenandoahParallelWorkerSession_dtor B D g thr = ShenandoahWorkerSession_dtor B D g thr"

subsection \<open>Sample configurations\<close>

text \<open>
  Concrete values on which the definitions are evaluated: an enumeration of twenty
  phases whose sentinel is the number of phases, a debug and a product build with a
  stall threshold of 100 microseconds, the coordinating thread and a worker thread, and
  an exact clock whose doubles are real numbers.
\<close>

definition sample_decls :: decls where
  "sample_decls =
     \<lparr>scan_roots = 2, update_roots = 3, init_evac = 5, final_update_refs_roots = 7,
      degen_gc_update_roots = 9, init_traversal_gc_work = 11, final_traversal_gc_work = 12,
      final_traversal_update_roots = 13, full_gc_roots = 15, num_phases = 20,
      invalid_phase = 20, no_gc = 0, INVALID_WORKER_ID = - 1\<rparr>"

definition debug_build :: build where
  "debug_build =
     \<lparr>ASSERT = True, ShenandoahAllocationTrace = True,
      ShenandoahAllocationStallThreshold = 100\<rparr>"

definition product_build :: build where
  "product_build =
     \<lparr>ASSERT = False, ShenandoahAllocationTrace = True,
      ShenandoahAllocationStallThreshold = 100\<rparr>"

definition vm_thread :: thread where
  "vm_thread = \<lparr>is_VM_thread = True, is_ConcurrentGC_thread = False, worker_id = - 1\<rparr>"

definition worker_thread :: thread where
  "worker_thread = \<lparr>is_VM_thread = False, is_ConcurrentGC_thread = False, worker_id = 3\<rparr>"

definition exact_clock :: "real double_ops" where
  "exact_clock =
     \<lparr>d_of_int = of_int, d_sub = (\<lambda>a b. a - b), d_mul = (\<lambda>a b. a * b),
      d_gt = (\<lambda>a b. a > b)\<rparr>"

definition active_state :: vm_state where
  "active_state = \<lparr>current_phase = 5, gc_cause = 4, calls = []\<rparr>"

definition unwinding_body :: "vm_state \<Rightarrow> bool \<times> vm_state" where
  "unwinding_body s = (True, s\<lparr>calls := calls s @ [Heuristics_record_gc_start]\<rparr>)"

definition untraced_build :: build where
  "untraced_build =
     \<lparr>ASSERT = True, ShenandoahAllocationTrace = False,
      ShenandoahAllocationStallThreshold = 100\<rparr>"

definition traced_state :: "real alloc_state" where
  "traced_state = \<lparr>alloc_tracker = Some [], gc_log = []\<rparr>"

definition sample_session :: ShenandoahGCSession where
  "sample_session =
     \<lparr>trace_cycle = initialize False 7 True True True True True True True True\<rparr>"

definition sample_worker_session :: ShenandoahWorkerSession where
  "sample_worker_session = \<lparr>session_worker_id = 3\<rparr>"

section \<open>Properties\<close>

subsection \<open>Phase guards nest\<close>

lemma ctor_parent:
  "ShenandoahGCPhase_ctor B thr p s = Inr (g, s1) \<Longrightarrow>
     parent_phase g = current_phase s \<and> phase g = p \<and> current_phase s1 = p"
  by (auto simp: ShenandoahGCPhase_ctor_def vm_assert_def call_out_def Let_def split: if_splits)

lemma dtor_current: "current_phase (ShenandoahGCPhase_dtor g s) = parent_phase g"
  by (simp add: ShenandoahGCPhase_dtor_def call_out_def Let_def)

lemma restored_append: "restored (xs @ ys) = (restored xs \<and> restored ys)"
  by (simp add: restored_def)

lemma restored_single: "restored [(a, b)] = (b = a)"
  by (simp add: restored_def)

lemma run_restores:
  "\<forall>obs s'. run_scope B thr sc s = Inr (obs, s') \<longrightarrow>
      current_phase s' = current_phase s \<and> restored obs \<and> length obs = guards sc"
  "\<forall>obs s'. run_scopes B thr scs s = Inr (obs, s') \<longrightarrow>
      current_phase s' = current_phase s \<and> restored obs \<and>
      length obs = sum_list (map guards scs)"
proof (induction B thr sc s and B thr scs s rule: run_scope_run_scopes.induct)
  case (1 B thr p body s)
  show ?case
  proof (intro allI impI)
    fix obs s'
    assume r: "run_scope B thr (Scope p body) s = Inr (obs, s')"
    then obtain g s1 where c: "ShenandoahGCPhase_ctor B thr p s = Inr (g, s1)"
      by (auto split: sum.splits)
    with r obtain obs2 s2 where b: "run_scopes B thr body s1 = Inr (obs2, s2)"
      by (auto split: sum.splits)
    from r c b have s': "s' = ShenandoahGCPhase_dtor g s2"
      and obs: "obs = obs2 @ [(current_phase s, current_phase s')]"
      by (auto simp: Let_def)
    from "1"[OF c refl] b have ih: "restored obs2" "length obs2 = sum_list (map guards body)"
      by simp_all
    from ctor_parent[OF c] have "parent_phase g = current_phase s" by simp
    then have cur: "current_phase s' = current_phase s"
      by (simp add: s' dtor_current)
    show "current_phase s' = current_phase s \<and> restored obs \<and> length obs = guards (Scope p body)"
      using cur ih by (simp add: obs restored_append restored_single)
  qed
next
  case (2 B thr s)
  then show ?case by (simp add: restored_def)
next
  case (3 B thr x xs s)
  show ?case
  proof (intro allI impI)
    fix obs s'
    assume r: "run_scopes B thr (x # xs) s = Inr (obs, s')"
    then obtain obs1 s1 where r1: "run_scope B thr x s = Inr (obs1, s1)"
      by (auto split: sum.splits)
    with r obtain obs2 where r2: "run_scopes B thr xs s1 = Inr (obs2, s')" and obs: "obs = obs1 @ obs2"
      by (auto split: sum.splits)
    from "3.IH"(1) r1 have h1: "current_phase s1 = current_phase s" "restored obs1" "length obs1 = guards x"
      by simp_all
    from "3.IH"(2)[OF r1 refl] r2 have h2: "current_phase s' = current_phase s1" "restored obs2"
       "length obs2 = sum_list (map guards xs)"
      by simp_all
    show "current_phase s' = current_phase s \<and> restored obs \<and>
      length obs = sum_list (map guards (x # xs))"
      using h1 h2 by (simp add: obs restored_append)
  qed
qed

lemma ctor_total:
  "is_VM_thread thr \<or> is_ConcurrentGC_thread thr \<or> \<not> ASSERT B \<Longrightarrow>
    \<exists>g s1. ShenandoahGCPhase_ctor B thr p s = Inr (g, s1)"
  by (auto simp: ShenandoahGCPhase_ctor_def vm_assert_def Let_def)

lemma run_total:
  "is_VM_thread thr \<or> is_ConcurrentGC_thread thr \<or> \<not> ASSERT B \<longrightarrow>
      (\<exists>obs s'. run_scope B thr sc s = Inr (obs, s'))"
  "is_VM_thread thr \<or> is_ConcurrentGC_thread thr \<or> \<not> ASSERT B \<longrightarrow>
      (\<exists>obs s'. run_scopes B thr scs s = Inr (obs, s'))"
proof (induction B thr sc s and B thr scs s rule: run_scope_run_scopes.induct)
  case (1 B thr p body s)
  show ?case
  proof
    assume a: "is_VM_thread thr \<or> is_ConcurrentGC_thread thr \<or> \<not> ASSERT B"
    from ctor_total[OF a] obtain g s1 where c: "ShenandoahGCPhase_ctor B thr p s = Inr (g, s1)"
      by blast
    from "1"[OF c refl] a obtain obs s2 where "run_scopes B thr body s1 = Inr (obs, s2)"
      by auto
    with c show "\<exists>obs s'. run_scope B thr (Scope p body) s = Inr (obs, s')"
      by (simp add: Let_def)
  qed
next
  case (2 B thr s)
  then show ?case by simp
next
  case (3 B thr x xs s)
  show ?case
  proof
    assume a: "is_VM_thread thr \<or> is_ConcurrentGC_thread thr \<or> \<not> ASSERT B"
    with "3.IH"(1) obtain obs1 s1 where r1: "run_scope B thr x s = Inr (obs1, s1)" by blast
    from "3.IH"(2)[OF r1 refl] a obtain obs2 s2 where "run_scopes B thr xs s1 = Inr (obs2, s2)"
      by auto
    with r1 show "\<exists>obs s'. run_scopes B thr (x # xs) s = Inr (obs, s')" by simp
  qed
qed


text \<open>
  Claim C1. For every correctly nested sequence of Phase Guard constructions and
  destructions, the registry's current phase after each guard's destruction equals the
  value the registry held immediately before that guard's construction. Every run of a
  scope that returns has noted one pair for each of its guards, each pair has equal
  components, and the scope as a whole leaves the current phase as it found it; the run
  returns whenever the thread is the VM thread or a concurrent GC thread, or the build
  has no assertions.
\<close>

theorem phase_guard_nesting_restores:
  "(\<forall>obs s'. run_scope B thr sc s = Inr (obs, s') \<longrightarrow>
       restored obs \<and> length obs = guards sc \<and> current_phase s' = current_phase s) \<and>
   (is_VM_thread thr \<or> is_ConcurrentGC_thread thr \<or> \<not> ASSERT B \<longrightarrow>
       (\<exists>obs s'. run_scope B thr sc s = Inr (obs, s')))"
  using run_restores(1)[of B thr sc s] run_total(1)[of thr B sc s] by blast

theorem phase_guard_nesting_restores_witness:
  "run_scope debug_build vm_thread (Scope 2 [Scope 5 []]) (initial_state sample_decls) =
     Inr ([(2, 2), (20, 20)],
          \<lparr>current_phase = 20, gc_cause = 0,
           calls = [PhaseTimings_record_phase_start 2, PhaseTimings_record_phase_start 5,
                    PhaseTimings_record_phase_end 5, PhaseTimings_record_phase_end 2]\<rparr>) \<and>
   restored [(2, 2), (20, 20)] \<and>
   length [(2::int, 2::int), (20, 20)] = guards (Scope 2 [Scope 5 []])"
  using phase_guard_nesting_restores
          [of debug_build vm_thread "Scope 2 [Scope 5 []]" "initial_state sample_decls"]
  by (simp add: ShenandoahGCPhase_ctor_def ShenandoahGCPhase_dtor_def vm_assert_def
        call_out_def Let_def debug_build_def vm_thread_def initial_state_def sample_decls_def
        restored_def)

subsection \<open>Root-work classification\<close>

text \<open>
  Claim C8. The root-work classification query is a function of the current phase
  alone: it is true exactly when the current phase is one of scan_roots, update_roots,
  init_evac, final_update_refs_roots, degen_gc_update_roots, init_traversal_gc_work,
  final_traversal_gc_work, final_traversal_update_roots and full_gc_roots, and false
  for every other phase. It returns a truth value and no state.
\<close>

theorem root_work_phase_closed_set:
  "is_root_work_phase D s =
     (current_phase s \<in>
        {scan_roots D, update_roots D, init_evac D, final_update_refs_roots D,
         degen_gc_update_roots D, init_traversal_gc_work D, final_traversal_gc_work D,
         final_traversal_update_roots D, full_gc_roots D})"
  by (simp add: is_root_work_phase_def Let_def)

lemma root_work_phase_examples:
  "is_root_work_phase sample_decls \<lparr>current_phase = 5, gc_cause = 0, calls = []\<rparr>"
  "\<not> is_root_work_phase sample_decls \<lparr>current_phase = 4, gc_cause = 0, calls = []\<rparr>"
  by (simp_all add: is_root_work_phase_def Let_def sample_decls_def)

lemma wf_sample_decls: "wf_decls sample_decls"
  by (simp add: wf_decls_def root_work_phases_def is_valid_phase_def sample_decls_def)

text \<open>
  Claim C10. When no phase is active, that is when the registry holds the invalid
  sentinel, as it does initially and outside any Phase Guard (after every run of
  nested guards that started with no phase active), the root-work classification query
  returns false. The enumeration is declared in a header: the theorem takes from it
  that the nine named enumerators lie in the range of the enumeration and the sentinel
  does not.
\<close>

theorem no_phase_is_not_root_work:
  assumes "wf_decls D"
  shows "(current_phase s = invalid_phase D \<longrightarrow> \<not> is_root_work_phase D s) \<and>
         \<not> is_root_work_phase D (initial_state D) \<and>
         (\<forall>obs s'. run_scopes B thr scs (initial_state D) = Inr (obs, s') \<longrightarrow>
            \<not> is_root_work_phase D s')"
proof -
  from assms have "invalid_phase D \<notin> set (root_work_phases D)"
    by (auto simp: wf_decls_def list_all_iff)
  then have none: "\<And>t. current_phase t = invalid_phase D \<Longrightarrow> \<not> is_root_work_phase D t"
    by (auto simp: is_root_work_phase_def Let_def root_work_phases_def)
  have init: "current_phase (initial_state D) = invalid_phase D"
    by (simp add: initial_state_def)
  have "\<not> is_root_work_phase D s'"
    if "run_scopes B thr scs (initial_state D) = Inr (obs, s')" for obs s'
    using run_restores(2) [of B thr scs "initial_state D"] that init none by auto
  with none init show ?thesis by blast
qed

theorem no_phase_is_not_root_work_witness:
  "wf_decls sample_decls \<and>
   current_phase (initial_state sample_decls) = invalid_phase sample_decls \<and>
   \<not> is_root_work_phase sample_decls (initial_state sample_decls) \<and>
   run_scopes debug_build vm_thread [Scope 2 []] (initial_state sample_decls) =
     Inr ([(20, 20)],
          \<lparr>current_phase = 20, gc_cause = 0,
           calls = [PhaseTimings_record_phase_start 2, PhaseTimings_record_phase_end 2]\<rparr>) \<and>
   \<not> is_root_work_phase sample_decls
       \<lparr>current_phase = 20, gc_cause = 0,
        calls = [PhaseTimings_record_phase_start 2, PhaseTimings_record_phase_end 2]\<rparr>"
proof -
  have run: "run_scopes debug_build vm_thread [Scope 2 []] (initial_state sample_decls) =
     Inr ([(20, 20)],
          \<lparr>current_phase = 20, gc_cause = 0,
           calls = [PhaseTimings_record_phase_start 2, PhaseTimings_record_phase_end 2]\<rparr>)"
    by (simp add: ShenandoahGCPhase_ctor_def ShenandoahGCPhase_dtor_def vm_assert_def
          call_out_def Let_def debug_build_def vm_thread_def initial_state_def sample_decls_def)
  have cur: "current_phase (initial_state sample_decls) = invalid_phase sample_decls"
    by (simp add: initial_state_def)
  from no_phase_is_not_root_work
         [OF wf_sample_decls, of "initial_state sample_decls" debug_build vm_thread "[Scope 2 []]"]
       run cur wf_sample_decls
  show ?thesis by simp
qed

subsection \<open>Session and pause guards\<close>

lemma session_dtor_cases:
  "ShenandoahGCSession_dtor B D g s =
     (if ASSERT B \<and> is_valid_phase D (current_phase s)
      then Inl (assert_failed ''No current GC phase'')
      else Inr \<lparr>current_phase = current_phase s, gc_cause = no_gc D,
                calls = calls s @ [Heuristics_record_cycle_end, Tracer_report_gc_end,
                                   Timer_register_gc_end]\<rparr>)"
  by (simp add: ShenandoahGCSession_dtor_def vm_assert_def call_out_def set_gc_cause_def Let_def)

lemma session_ctor_cases:
  "ShenandoahGCSession_ctor B D c s =
     (if ASSERT B \<and> is_valid_phase D (current_phase s)
      then Inl (assert_failed ''No current GC phase'')
      else Inr (\<lparr>trace_cycle = initialize False c True True True True True True True True\<rparr>,
                \<lparr>current_phase = current_phase s, gc_cause = c,
                 calls = calls s @ [Timer_register_gc_start, Tracer_report_gc_start c,
                                    Heap_trace_heap_BeforeGC, Policy_record_cycle_start,
                                    Heuristics_record_cycle_start]\<rparr>))"
  by (simp add: ShenandoahGCSession_ctor_def vm_assert_def call_out_def set_gc_cause_def Let_def)

text \<open>
  Claim C2. Constructing a Session Guard while a phase is active (the registry's
  current phase is a valid, non-sentinel value) triggers the fatal assertion, and the
  destructor asserts the same condition again; when no phase is active at either
  boundary neither assertion fires and both return. The assertion is the debug-only
  contract check, so it is a build with \<^verbatim>\<open>ASSERT\<close> in which it fires.
\<close>

theorem session_guard_requires_no_phase:
  "(ASSERT B \<and> is_valid_phase D (current_phase s) \<longrightarrow>
       ShenandoahGCSession_ctor B D c s = Inl (assert_failed ''No current GC phase'') \<and>
       ShenandoahGCSession_dtor B D g s = Inl (assert_failed ''No current GC phase'')) \<and>
   (\<not> is_valid_phase D (current_phase s) \<longrightarrow>
       (\<exists>g' s'. ShenandoahGCSession_ctor B D c s = Inr (g', s')) \<and>
       (\<exists>s'. ShenandoahGCSession_dtor B D g s = Inr s'))"
  by (simp add: session_ctor_cases session_dtor_cases)

theorem session_guard_requires_no_phase_witness:
  "ASSERT debug_build \<and> is_valid_phase sample_decls (current_phase active_state) \<and>
   ShenandoahGCSession_ctor debug_build sample_decls 7 active_state =
     Inl (assert_failed ''No current GC phase'') \<and>
   ShenandoahGCSession_dtor debug_build sample_decls sample_session active_state =
     Inl (assert_failed ''No current GC phase'') \<and>
   \<not> is_valid_phase sample_decls (current_phase (initial_state sample_decls)) \<and>
   (\<exists>g' s'. ShenandoahGCSession_ctor debug_build sample_decls 7 (initial_state sample_decls) =
        Inr (g', s')) \<and>
   (\<exists>s'. ShenandoahGCSession_dtor debug_build sample_decls sample_session (initial_state sample_decls) =
        Inr s')"
proof -
  have a: "ASSERT debug_build \<and> is_valid_phase sample_decls (current_phase active_state)"
    by (simp add: debug_build_def is_valid_phase_def sample_decls_def active_state_def)
  have b: "\<not> is_valid_phase sample_decls (current_phase (initial_state sample_decls))"
    by (simp add: is_valid_phase_def sample_decls_def initial_state_def)
  show ?thesis
    using a b
      session_guard_requires_no_phase [of debug_build sample_decls active_state 7 sample_session]
      session_guard_requires_no_phase
        [of debug_build sample_decls "initial_state sample_decls" 7 sample_session]
    by blast
qed

text \<open>
  Claim C6. Whenever the Session Guard destructor runs, also when it runs because the
  bracketed work is left by unwinding, the heap's active GC cause is left reset to
  \<^verbatim>\<open>GCCause::_no_gc\<close>: from every state the destructor either returns a state whose
  cause is the sentinel, having changed nothing else but the record of its three
  calls, or the debug assertion has terminated the VM; and every bracketed cycle that
  returns, whichever way its work ended, returns with the cause reset.
\<close>

theorem session_dtor_resets_cause:
  "((\<exists>s'. ShenandoahGCSession_dtor B D g s = Inr s' \<and> gc_cause s' = no_gc D \<and>
          current_phase s' = current_phase s \<and>
          calls s' = calls s @ [Heuristics_record_cycle_end, Tracer_report_gc_end,
                                Timer_register_gc_end]) \<or>
    (ASSERT B \<and> is_valid_phase D (current_phase s) \<and>
     ShenandoahGCSession_dtor B D g s = Inl (assert_failed ''No current GC phase''))) \<and>
   (\<forall>unwinding s'. session_scope B D c body s = Inr (unwinding, s') \<longrightarrow>
        gc_cause s' = no_gc D)"
  by (auto simp: session_dtor_cases session_scope_def split: sum.splits prod.splits if_splits)

theorem session_dtor_resets_cause_witness:
  "session_scope debug_build sample_decls 7 unwinding_body (initial_state sample_decls) =
     Inr (True,
          \<lparr>current_phase = 20, gc_cause = 0,
           calls = [Timer_register_gc_start, Tracer_report_gc_start 7,
                    Heap_trace_heap_BeforeGC, Policy_record_cycle_start,
                    Heuristics_record_cycle_start, Heuristics_record_gc_start,
                    Heuristics_record_cycle_end, Tracer_report_gc_end,
                    Timer_register_gc_end]\<rparr>) \<and>
   gc_cause \<lparr>current_phase = 20, gc_cause = 0,
           calls = [Timer_register_gc_start, Tracer_report_gc_start 7,
                    Heap_trace_heap_BeforeGC, Policy_record_cycle_start,
                    Heuristics_record_cycle_start, Heuristics_record_gc_start,
                    Heuristics_record_cycle_end, Tracer_report_gc_end,
                    Timer_register_gc_end]\<rparr> = no_gc sample_decls"
  using session_dtor_resets_cause
          [of debug_build sample_decls sample_session "initial_state sample_decls" 7 unwinding_body]
  by (simp add: session_scope_def session_ctor_cases session_dtor_cases unwinding_body_def
        initial_state_def sample_decls_def debug_build_def is_valid_phase_def)

text \<open>
  Claim C9. The Pause Guard initialises its Pause Trace Record with the pre-GC, peak
  and post-GC usage fields disabled; the Session Guard initialises its Cycle Trace
  Record with begin time, pre-GC usage, peak usage, post-GC usage, accumulated GC
  time, end time and collection count all enabled.
\<close>

theorem trace_record_fields:
  "\<not> recordPreGCUsage (trace_pause (fst (ShenandoahGCPauseMark_ctor type s))) \<and>
   \<not> recordPeakUsage (trace_pause (fst (ShenandoahGCPauseMark_ctor type s))) \<and>
   \<not> recordPostGCUsage (trace_pause (fst (ShenandoahGCPauseMark_ctor type s))) \<and>
   (\<forall>g s'. ShenandoahGCSession_ctor B D c s = Inr (g, s') \<longrightarrow>
      recordGCBeginTime (trace_cycle g) \<and> recordPreGCUsage (trace_cycle g) \<and>
      recordPeakUsage (trace_cycle g) \<and> recordPostGCUsage (trace_cycle g) \<and>
      recordAccumulatedGCTime (trace_cycle g) \<and> recordGCEndTime (trace_cycle g) \<and>
      countCollection (trace_cycle g))"
  by (auto simp: ShenandoahGCPauseMark_ctor_def session_ctor_cases initialize_def Let_def
        split: if_splits)

theorem trace_record_fields_witness:
  "ShenandoahGCSession_ctor product_build sample_decls 7 (initial_state sample_decls) =
     Inr (\<lparr>trace_cycle = initialize False 7 True True True True True True True True\<rparr>,
          \<lparr>current_phase = 20, gc_cause = 7,
           calls = [Timer_register_gc_start, Tracer_report_gc_start 7,
                    Heap_trace_heap_BeforeGC, Policy_record_cycle_start,
                    Heuristics_record_cycle_start]\<rparr>) \<and>
   recordPreGCUsage (initialize False 7 True True True True True True True True) \<and>
   \<not> recordPreGCUsage (trace_pause (fst (ShenandoahGCPauseMark_ctor 1 (initial_state sample_decls))))"
  using trace_record_fields [of 1 "initial_state sample_decls" product_build sample_decls 7]
  by (simp add: session_ctor_cases initial_state_def sample_decls_def product_build_def)

subsection \<open>Worker sessions\<close>

text \<open>
  Claim C7. Constructing a Worker Session Guard on a thread whose worker-identity slot
  does not hold the invalid sentinel triggers the fatal assertion (the debug-only
  contract check); when the slot holds the sentinel the assertion does not fire and the
  slot is set to the given worker id, in every build.
\<close>

theorem worker_session_ctor_requires_unset:
  "(ASSERT B \<and> worker_id thr \<noteq> INVALID_WORKER_ID D \<longrightarrow>
      ShenandoahWorkerSession_ctor B D wid thr = Inl (assert_failed ''Already set'')) \<and>
   (worker_id thr = INVALID_WORKER_ID D \<longrightarrow>
      (\<exists>g thr'. ShenandoahWorkerSession_ctor B D wid thr = Inr (g, thr') \<and>
         worker_id thr' = wid \<and> session_worker_id g = wid \<and>
         is_VM_thread thr' = is_VM_thread thr \<and>
         is_ConcurrentGC_thread thr' = is_ConcurrentGC_thread thr))"
  by (simp add: ShenandoahWorkerSession_ctor_def vm_assert_def)

theorem worker_session_ctor_requires_unset_witness:
  "ASSERT debug_build \<and> worker_id worker_thread \<noteq> INVALID_WORKER_ID sample_decls \<and>
   ShenandoahWorkerSession_ctor debug_build sample_decls 4 worker_thread =
     Inl (assert_failed ''Already set'') \<and>
   worker_id vm_thread = INVALID_WORKER_ID sample_decls \<and>
   (\<exists>g thr'. ShenandoahWorkerSession_ctor debug_build sample_decls 4 vm_thread = Inr (g, thr') \<and>
         worker_id thr' = 4)"
proof -
  have a: "ASSERT debug_build \<and> worker_id worker_thread \<noteq> INVALID_WORKER_ID sample_decls"
    by (simp add: debug_build_def worker_thread_def sample_decls_def)
  have b: "worker_id vm_thread = INVALID_WORKER_ID sample_decls"
    by (simp add: vm_thread_def sample_decls_def)
  show ?thesis
    using a b worker_session_ctor_requires_unset [of debug_build worker_thread sample_decls 4]
      worker_session_ctor_requires_unset [of debug_build vm_thread sample_decls 4]
    by blast
qed

text \<open>
  Claim C3 says that the base destructor resets the slot in every build. In a build
  without \<^verbatim>\<open>ASSERT\<close> the destructor is empty: a thread holding worker id 3 still
  holds it afterwards.
\<close>

theorem worker_session_dtor_keeps_id_in_product_build:
  "ShenandoahWorkerSession_dtor product_build sample_decls sample_worker_session
       worker_thread = Inr worker_thread \<and>
   worker_id worker_thread = 3 \<and>
   worker_id worker_thread \<noteq> INVALID_WORKER_ID sample_decls"
  by (simp add: ShenandoahWorkerSession_dtor_def product_build_def worker_thread_def
        sample_decls_def)

text \<open>
  Claim C3, amended. In a debug build the base destructor checks that the slot holds a
  valid id and resets it to the invalid sentinel (and terminates the VM when the slot
  holds the sentinel); in a build without \<^verbatim>\<open>ASSERT\<close> the destructor performs
  neither the check nor the reset and leaves the thread as it is.
\<close>

theorem worker_session_dtor_by_build:
  "(ASSERT B \<and> worker_id thr \<noteq> INVALID_WORKER_ID D \<longrightarrow>
      ShenandoahWorkerSession_dtor B D g thr = Inr (thr\<lparr>worker_id := INVALID_WORKER_ID D\<rparr>)) \<and>
   (ASSERT B \<and> worker_id thr = INVALID_WORKER_ID D \<longrightarrow>
      ShenandoahWorkerSession_dtor B D g thr = Inl (assert_failed ''Must be set'')) \<and>
   (\<not> ASSERT B \<longrightarrow> ShenandoahWorkerSession_dtor B D g thr = Inr thr)"
  by (simp add: ShenandoahWorkerSession_dtor_def vm_assert_def)

theorem worker_session_dtor_by_build_witness:
  "ASSERT debug_build \<and> worker_id worker_thread \<noteq> INVALID_WORKER_ID sample_decls \<and>
   ShenandoahWorkerSession_dtor debug_build sample_decls sample_worker_session worker_thread =
     Inr (worker_thread\<lparr>worker_id := INVALID_WORKER_ID sample_decls\<rparr>) \<and>
   worker_id vm_thread = INVALID_WORKER_ID sample_decls \<and>
   ShenandoahWorkerSession_dtor debug_build sample_decls sample_worker_session vm_thread =
     Inl (assert_failed ''Must be set'') \<and>
   \<not> ASSERT product_build \<and>
   ShenandoahWorkerSession_dtor product_build sample_decls sample_worker_session worker_thread = Inr worker_thread"
proof -
  have a: "ASSERT debug_build \<and> worker_id worker_thread \<noteq> INVALID_WORKER_ID sample_decls"
    by (simp add: debug_build_def worker_thread_def sample_decls_def)
  have b: "worker_id vm_thread = INVALID_WORKER_ID sample_decls"
    by (simp add: vm_thread_def sample_decls_def)
  have c: "\<not> ASSERT product_build"
    by (simp add: product_build_def)
  show ?thesis
    using a b c worker_session_dtor_by_build [of debug_build worker_thread sample_decls sample_worker_session]
      worker_session_dtor_by_build [of debug_build vm_thread sample_decls sample_worker_session]
      worker_session_dtor_by_build [of product_build worker_thread sample_decls sample_worker_session]
    by blast
qed

subsection \<open>Allocation tracing\<close>

lemma alloc_dtor_traced:
  "ShenandoahAllocationTrace B \<Longrightarrow> alloc_tracker w = Some recs \<Longrightarrow>
   ShenandoahAllocTrace_dtor B ops t1 g w =
     Inr \<lparr>alloc_tracker =
            Some (recs @ [(size_words g, alloc_type g,
                           d_mul ops (d_sub ops t1 (start g)) (d_of_int ops 1000000))]),
          gc_log = gc_log w @
            (if d_gt ops (d_mul ops (d_sub ops t1 (start g)) (d_of_int ops 1000000))
                  (d_of_int ops (sint (ShenandoahAllocationStallThreshold B)))
             then [(d_mul ops (d_sub ops t1 (start g)) (d_of_int ops 1000000),
                    ShenandoahAllocationStallThreshold B)]
             else [])\<rparr>"
  by (simp add: ShenandoahAllocTrace_dtor_def vm_assert_def record_alloc_latency_def Let_def)

lemma alloc_dtor_untraced:
  "\<not> ShenandoahAllocationTrace B \<Longrightarrow> ShenandoahAllocTrace_dtor B ops t1 g w = Inr w"
  by (simp add: ShenandoahAllocTrace_dtor_def)

text \<open>
  Claim C4. For every Allocation Trace Guard the heap's allocation-latency tracker
  receives exactly one record of size, type and duration in microseconds at
  destruction if tracing was enabled at construction, and no call at all if tracing
  was disabled at construction, in which case all fields of the guard are zeroed at
  construction. The toggle is a VM flag and has one value for the guard's lifetime; the
  tracker that receives the record is the heap's non-null tracker.
\<close>

theorem alloc_trace_records_once:
  "(ShenandoahAllocationTrace B \<and> alloc_tracker w = Some recs \<longrightarrow>
      (\<exists>w'. ShenandoahAllocTrace_dtor B ops t1 (ShenandoahAllocTrace_ctor B ops t0 sz ty) w =
               Inr w' \<and>
            alloc_tracker w' =
              Some (recs @ [(sz, ty, d_mul ops (d_sub ops t1 t0) (d_of_int ops 1000000))]))) \<and>
   (\<not> ShenandoahAllocationTrace B \<longrightarrow>
      ShenandoahAllocTrace_ctor B ops t0 sz ty =
        \<lparr>start = d_of_int ops 0, size_words = 0, alloc_type = 0\<rparr> \<and>
      ShenandoahAllocTrace_dtor B ops t1 g w = Inr w)"
  by (simp add: alloc_dtor_traced alloc_dtor_untraced ShenandoahAllocTrace_ctor_def)

theorem alloc_trace_records_once_witness:
  "ShenandoahAllocationTrace debug_build \<and> alloc_tracker traced_state = Some [] \<and>
   (\<exists>w'. ShenandoahAllocTrace_dtor debug_build exact_clock (3 / 2)
            (ShenandoahAllocTrace_ctor debug_build exact_clock 1 64 2) traced_state = Inr w' \<and>
          alloc_tracker w' = Some [(64, 2, 500000)]) \<and>
   \<not> ShenandoahAllocationTrace untraced_build \<and>
   ShenandoahAllocTrace_ctor untraced_build exact_clock 1 64 2 =
     \<lparr>start = 0, size_words = 0, alloc_type = 0\<rparr> \<and>
   ShenandoahAllocTrace_dtor untraced_build exact_clock (3 / 2)
     \<lparr>start = 0, size_words = 0, alloc_type = 0\<rparr> traced_state = Inr traced_state"
proof -
  have a: "ShenandoahAllocationTrace debug_build \<and> alloc_tracker traced_state = Some []"
    by (simp add: debug_build_def traced_state_def)
  have b: "\<not> ShenandoahAllocationTrace untraced_build"
    by (simp add: untraced_build_def)
  have c: "d_mul exact_clock (d_sub exact_clock (3 / 2) 1) (d_of_int exact_clock 1000000) = 500000"
    "d_of_int exact_clock 0 = 0"
    by (simp_all add: exact_clock_def)
  from a alloc_trace_records_once [of debug_build traced_state "[]" exact_clock "3 / 2" 1 64 2]
  have traced: "\<exists>w'. ShenandoahAllocTrace_dtor debug_build exact_clock (3 / 2)
            (ShenandoahAllocTrace_ctor debug_build exact_clock 1 64 2) traced_state = Inr w' \<and>
          alloc_tracker w' = Some [(64, 2, 500000)]"
    unfolding c by simp
  from b alloc_trace_records_once [of untraced_build traced_state "[]" exact_clock "3 / 2" 1 64 2
         "\<lparr>start = 0, size_words = 0, alloc_type = 0\<rparr>"]
  have untraced: "ShenandoahAllocTrace_ctor untraced_build exact_clock 1 64 2 =
     \<lparr>start = 0, size_words = 0, alloc_type = 0\<rparr> \<and>
   ShenandoahAllocTrace_dtor untraced_build exact_clock (3 / 2)
     \<lparr>start = 0, size_words = 0, alloc_type = 0\<rparr> traced_state = Inr traced_state"
    unfolding c by blast
  from a b traced untraced show ?thesis by blast
qed

text \<open>
  Claim C5. With tracing enabled, the destructor emits exactly one stall warning if
  and only if the measured duration in microseconds strictly exceeds the configured
  stall threshold, and none otherwise; the warning carries the measured duration and
  the threshold. The comparison is the code's own comparison of the double with the
  converted threshold. On the exact clock a scope of 150 microseconds against a
  threshold of 100 gives one warning and a scope of 50 microseconds gives none.
\<close>

theorem alloc_trace_stall_warning:
  "ShenandoahAllocationTrace B \<and> alloc_tracker w = Some recs \<longrightarrow>
     (\<exists>w'. ShenandoahAllocTrace_dtor B ops t1 g w = Inr w' \<and>
        gc_log w' = gc_log w @
          (if d_gt ops (d_mul ops (d_sub ops t1 (start g)) (d_of_int ops 1000000))
                (d_of_int ops (sint (ShenandoahAllocationStallThreshold B)))
           then [(d_mul ops (d_sub ops t1 (start g)) (d_of_int ops 1000000),
                  ShenandoahAllocationStallThreshold B)]
           else []))"
  by (simp add: alloc_dtor_traced)

theorem alloc_trace_stall_warning_witness:
  "ShenandoahAllocationTrace debug_build \<and> alloc_tracker traced_state = Some [] \<and>
   (\<exists>w'. ShenandoahAllocTrace_dtor debug_build exact_clock (1 + 150 / 1000000)
            \<lparr>start = 1, size_words = 64, alloc_type = 2\<rparr> traced_state = Inr w' \<and>
          gc_log w' = [(150, 100)]) \<and>
   (\<exists>w'. ShenandoahAllocTrace_dtor debug_build exact_clock (1 + 50 / 1000000)
            \<lparr>start = 1, size_words = 64, alloc_type = 2\<rparr> traced_state = Inr w' \<and>
          gc_log w' = [])"
proof -
  have a: "ShenandoahAllocationTrace debug_build \<and> alloc_tracker traced_state = Some []"
    by (simp add: debug_build_def traced_state_def)
  from a alloc_trace_stall_warning [of debug_build traced_state "[]" exact_clock
         "1 + 150 / 1000000" "\<lparr>start = 1, size_words = 64, alloc_type = 2\<rparr>"]
  have slow: "\<exists>w'. ShenandoahAllocTrace_dtor debug_build exact_clock (1 + 150 / 1000000)
            \<lparr>start = 1, size_words = 64, alloc_type = 2\<rparr> traced_state = Inr w' \<and>
          gc_log w' = [(150, 100)]"
    by (simp add: exact_clock_def debug_build_def traced_state_def)
  from a alloc_trace_stall_warning [of debug_build traced_state "[]" exact_clock
         "1 + 50 / 1000000" "\<lparr>start = 1, size_words = 64, alloc_type = 2\<rparr>"]
  have fast: "\<exists>w'. ShenandoahAllocTrace_dtor debug_build exact_clock (1 + 50 / 1000000)
            \<lparr>start = 1, size_words = 64, alloc_type = 2\<rparr> traced_state = Inr w' \<and>
          gc_log w' = []"
    by (simp add: exact_clock_def debug_build_def traced_state_def)
  from a slow fast show ?thesis by blast
qed

end
